theory Spec2Isabelle
  imports Complex_Main "HOL-Library.Sublist" "HOL-Library.AList"
begin

section \<open>Python runtime errors and values\<close>

text \<open>
  The script \<^verbatim>\<open>doc/benchmark_generate_charts.py\<close> defines no exception of its own:
  every failure is one of Python's built-in exceptions, raised by a built-in operation.
  A raise is the \<open>Inl\<close> branch of a sum.
\<close>

datatype error =
    AttributeError      \<comment> \<open>\<^verbatim>\<open>.group(0)\<close> on the \<^verbatim>\<open>None\<close> that \<^verbatim>\<open>re.search\<close> returns without a match\<close>
  | ValueError          \<comment> \<open>\<^verbatim>\<open>int(s)\<close> on a string that is not a number\<close>
  | IndexError          \<comment> \<open>string index out of range\<close>
  | KeyError            \<comment> \<open>\<^verbatim>\<open>d[k]\<close> on a missing key\<close>
  | ZeroDivisionError   \<comment> \<open>\<^verbatim>\<open>a / 0\<close>\<close>
  | OverflowError       \<comment> \<open>\<^verbatim>\<open>a / b\<close> on integers whose quotient exceeds the float range\<close>

section \<open>Regular expressions as used by the script\<close>

text \<open>
  Text is a list of code points below 256 (\<^typ>\<open>char\<close>). The character classes are those of
  Python's \<^verbatim>\<open>re\<close> on \<^verbatim>\<open>str\<close> patterns, restricted to that range.
\<close>

definition is_digit :: "char \<Rightarrow> bool" where
  "is_digit c = (let n = of_char c :: nat in 48 \<le> n \<and> n \<le> 57)"

definition is_space :: "char \<Rightarrow> bool" where
  "is_space c = (let n = of_char c :: nat in
     (9 \<le> n \<and> n \<le> 13) \<or> (28 \<le> n \<and> n \<le> 32) \<or> n = 133 \<or> n = 160)"

definition is_word :: "char \<Rightarrow> bool" where
  "is_word c = (let n = of_char c :: nat in
     (48 \<le> n \<and> n \<le> 57) \<or> (65 \<le> n \<and> n \<le> 90) \<or> n = 95 \<or> (97 \<le> n \<and> n \<le> 122) \<or>
     n = 170 \<or> n = 178 \<or> n = 179 \<or> n = 181 \<or> n = 185 \<or> n = 186 \<or>
     (188 \<le> n \<and> n \<le> 190) \<or> (192 \<le> n \<and> n \<le> 214) \<or> (216 \<le> n \<and> n \<le> 246) \<or> 248 \<le> n)"

datatype cls =
    Word      \<comment> \<open>\<^verbatim>\<open>\w\<close>\<close>
  | Space     \<comment> \<open>\<^verbatim>\<open>\s\<close>\<close>
  | Digit     \<comment> \<open>\<^verbatim>\<open>\d\<close>\<close>
  | Dot       \<comment> \<open>\<^verbatim>\<open>.\<close> without \<^verbatim>\<open>re.DOTALL\<close>: anything but a newline\<close>
  | DotAll    \<comment> \<open>\<^verbatim>\<open>.\<close> under \<^verbatim>\<open>re.DOTALL\<close>\<close>

fun in_cls :: "cls \<Rightarrow> char \<Rightarrow> bool" where
  "in_cls Word c = is_word c"
| "in_cls Space c = is_space c"
| "in_cls Digit c = is_digit c"
| "in_cls Dot c = (c \<noteq> CHR 0x0A)"
| "in_cls DotAll c = True"

text \<open>
  The patterns of the script quantify single characters only, so the syntax has the
  quantifiers on character classes.
\<close>

datatype rx =
    Lit string          \<comment> \<open>literal text\<close>
  | Plus cls            \<comment> \<open>\<^verbatim>\<open>c+\<close>, greedy\<close>
  | Star cls            \<comment> \<open>\<^verbatim>\<open>c*\<close>, greedy\<close>
  | LazyStar cls        \<comment> \<open>\<^verbatim>\<open>c*?\<close>\<close>
  | Seq rx rx
  | Alt rx rx           \<comment> \<open>\<^verbatim>\<open>a|b\<close>\<close>
  | Lookahead rx        \<comment> \<open>\<^verbatim>\<open>(?=a)\<close>\<close>
  | EndZ                \<comment> \<open>\<^verbatim>\<open>\Z\<close>\<close>

text \<open>
  A backtracking matcher tries the ways to match in a fixed order and takes the first that lets
  the rest of the pattern match. \<open>rx_match r s\<close> lists, in that order, what is left of \<open>s\<close>
  after each way of matching \<open>r\<close> at its start.
\<close>

fun plus_greedy :: "cls \<Rightarrow> string \<Rightarrow> string list" where
  "plus_greedy k [] = []"
| "plus_greedy k (c # cs) = (if in_cls k c then plus_greedy k cs @ [cs] else [])"

fun star_lazy :: "cls \<Rightarrow> string \<Rightarrow> string list" where
  "star_lazy k [] = [[]]"
| "star_lazy k (c # cs) = (c # cs) # (if in_cls k c then star_lazy k cs else [])"

fun rx_match :: "rx \<Rightarrow> string \<Rightarrow> string list" where
  "rx_match (Lit l) s = (if prefix l s then [drop (length l) s] else [])"
| "rx_match (Plus k) s = plus_greedy k s"
| "rx_match (Star k) s = plus_greedy k s @ [s]"
| "rx_match (LazyStar k) s = star_lazy k s"
| "rx_match (Seq a b) s = concat (map (rx_match b) (rx_match a s))"
| "rx_match (Alt a b) s = rx_match a s @ rx_match b s"
| "rx_match (Lookahead a) s = (if rx_match a s = [] then [] else [s])"
| "rx_match EndZ s = (if s = [] then [s] else [])"

text \<open>
  \<^verbatim>\<open>re.search(p, s)\<close> tries the start positions from the left; the result is \<^verbatim>\<open>None\<close> or
  the matched text, \<^verbatim>\<open>group(0)\<close>.
\<close>

definition matched :: "string \<Rightarrow> string \<Rightarrow> string" where
  "matched s rest = take (length s - length rest) s"

fun re_search :: "rx \<Rightarrow> string \<Rightarrow> string option" where
  "re_search p [] = (case rx_match p [] of [] \<Rightarrow> None | r # _ \<Rightarrow> Some (matched [] r))"
| "re_search p (c # cs) =
     (case rx_match p (c # cs) of [] \<Rightarrow> re_search p cs | r # _ \<Rightarrow> Some (matched (c # cs) r))"

definition group0 :: "string option \<Rightarrow> error + string" where
  "group0 m = (case m of None \<Rightarrow> Inl AttributeError | Some g \<Rightarrow> Inr g)"

section \<open>Section splitter\<close>

text \<open>
  \<^verbatim>\<open>x86_section = re.search(r"x86_64.*?(?=riscv64|\Z)", content, re.DOTALL).group(0)\<close>
  \<^verbatim>\<open>riscv_section = re.search(r"riscv64.*", content, re.DOTALL).group(0)\<close>
\<close>

definition x86_pattern :: rx where
  "x86_pattern = Seq (Lit ''x86_64'') (Seq (LazyStar DotAll) (Lookahead (Alt (Lit ''riscv64'') EndZ)))"

definition riscv_pattern :: rx where
  "riscv_pattern = Seq (Lit ''riscv64'') (Star DotAll)"

definition x86_section :: "string \<Rightarrow> error + string" where
  "x86_section content = group0 (re_search x86_pattern content)"

definition riscv_section :: "string \<Rightarrow> error + string" where
  "riscv_section content = group0 (re_search riscv_pattern content)"

text \<open>The two assignments in the order of the script: the first failure is the one raised.\<close>

definition split_sections :: "string \<Rightarrow> error + (string \<times> string)" where
  "split_sections content =
     (case x86_section content of Inl e \<Rightarrow> Inl e
      | Inr x \<Rightarrow> (case riscv_section content of Inl e \<Rightarrow> Inl e | Inr r \<Rightarrow> Inr (x, r)))"

section \<open>Line parser\<close>

text \<open>
  \<^verbatim>\<open>pattern = r"(\w+(?:\s+-O\d+|\s+.*?transpile_O\d+\.c))\s+(\d+)ms"\<close>
  \<^verbatim>\<open>matches = re.findall(pattern, section)\<close>

  \<open>method_pattern\<close> is the first group. \<open>match_line s\<close> matches the whole pattern at the start
  of \<open>s\<close>: the text of the two groups and what is left of \<open>s\<close> after the match.
\<close>

definition method_pattern :: rx where
  "method_pattern =
     Seq (Plus Word)
       (Alt (Seq (Plus Space) (Seq (Lit ''-O'') (Plus Digit)))
            (Seq (Plus Space) (Seq (LazyStar Dot)
               (Seq (Lit ''transpile_O'') (Seq (Plus Digit) (Lit ''.c''))))))"

definition match_line :: "string \<Rightarrow> (string \<times> string \<times> string) option" where
  "match_line s =
     (case [(r1, r2, r3, r4).
              r1 \<leftarrow> rx_match method_pattern s, r2 \<leftarrow> rx_match (Plus Space) r1,
              r3 \<leftarrow> rx_match (Plus Digit) r2, r4 \<leftarrow> rx_match (Lit ''ms'') r3] of
        [] \<Rightarrow> None
      | (r1, r2, r3, r4) # _ \<Rightarrow> Some (matched s r1, matched r2 r3, r4))"

text \<open>
  \<^verbatim>\<open>re.findall\<close> scans from the left and resumes at the end of each match. \<open>skip\<close> counts the
  characters of the last match that the scan has still to pass. The pattern matches no empty
  text, so nothing is found at the end of the text.
\<close>

fun findall_from :: "nat \<Rightarrow> string \<Rightarrow> (string \<times> string) list" where
  "findall_from skip [] = []"
| "findall_from skip (c # cs) =
     (if 0 < skip then findall_from (skip - 1) cs
      else (case match_line (c # cs) of
              None \<Rightarrow> findall_from 0 cs
            | Some (method, time, rest) \<Rightarrow>
                (method, time) # findall_from (length cs - length rest) cs))"

definition findall :: "string \<Rightarrow> (string \<times> string) list" where
  "findall section = findall_from 0 section"

section \<open>Category classifier\<close>

datatype category = Interpreter | Native | Gcc | Clang

text \<open>
  \<^verbatim>\<open>int(s)\<close> at the two places the script calls it: on one character of the method and on the
  digits of the second group. On such arguments \<^verbatim>\<open>int\<close> returns the decimal value of a run of
  digits and raises \<^verbatim>\<open>ValueError\<close> on anything else.
\<close>

definition digit_value :: "char \<Rightarrow> int" where
  "digit_value c = int (of_char c) - 48"

definition py_int :: "string \<Rightarrow> error + int" where
  "py_int s =
     (if s \<noteq> [] \<and> list_all is_digit s then Inr (foldl (\<lambda>n c. 10 * n + digit_value c) 0 s)
      else Inl ValueError)"

text \<open>\<^verbatim>\<open>s[-k]\<close> for \<open>k \<ge> 1\<close>.\<close>

definition from_end :: "string \<Rightarrow> nat \<Rightarrow> error + char" where
  "from_end s k = (if k \<le> length s then Inr (s ! (length s - k)) else Inl IndexError)"

text \<open>\<^verbatim>\<open>int(method[-k])\<close>\<close>

definition level_at :: "string \<Rightarrow> nat \<Rightarrow> error + int" where
  "level_at method k = (case from_end method k of Inl e \<Rightarrow> Inl e | Inr c \<Rightarrow> py_int [c])"

text \<open>
  The \<^verbatim>\<open>if\<close>/\<^verbatim>\<open>elif\<close> chain of \<^verbatim>\<open>parse_section\<close>; \<open>Inr None\<close> is its \<^verbatim>\<open>continue\<close>. Python's
  \<^verbatim>\<open>a in b\<close> on strings is \<^const>\<open>sublist\<close>.
\<close>

definition classified :: "category \<Rightarrow> error + int \<Rightarrow> error + (category \<times> int) option" where
  "classified category l = (case l of Inl e \<Rightarrow> Inl e | Inr opt_level \<Rightarrow> Inr (Some (category, opt_level)))"

definition classify :: "string \<Rightarrow> error + (category \<times> int) option" where
  "classify method =
     (if sublist ''interpret'' method then classified Interpreter (level_at method 1)
      else if sublist ''compile'' method then classified Native (level_at method 1)
      else if sublist ''gcc'' method then classified Gcc (level_at method 3)
      else if sublist ''clang'' method then classified Clang (level_at method 3)
      else Inr None)"

section \<open>Benchmark table\<close>

text \<open>
  A Python \<^verbatim>\<open>dict\<close> keeps its keys in insertion order and an assignment to a present key
  replaces the value in place: an association list under \<^const>\<open>AList.update\<close>.
\<close>

type_synonym row = "(category \<times> int) list"
type_synonym table = "(int \<times> row) list"

definition cell :: "table \<Rightarrow> int \<Rightarrow> category \<Rightarrow> int option" where
  "cell data opt_level category =
     (case map_of data opt_level of None \<Rightarrow> None | Some r \<Rightarrow> map_of r category)"

text \<open>
  \<^verbatim>\<open>if opt_level not in data: data[opt_level] = {}\<close>
  \<^verbatim>\<open>data[opt_level][category] = int(time)\<close>
\<close>

definition store :: "table \<Rightarrow> int \<Rightarrow> category \<Rightarrow> string \<Rightarrow> error + table" where
  "store data opt_level category time =
     (let data1 = (if map_of data opt_level = None then AList.update opt_level [] data else data)
      in case py_int time of
           Inl e \<Rightarrow> Inl e
         | Inr t \<Rightarrow>
             (case map_of data1 opt_level of
                None \<Rightarrow> Inl KeyError
              | Some r \<Rightarrow> Inr (AList.update opt_level (AList.update category t r) data1)))"

fun parse_loop :: "table \<Rightarrow> (string \<times> string) list \<Rightarrow> error + table" where
  "parse_loop data [] = Inr data"
| "parse_loop data ((method, time) # matches) =
     (case classify method of
        Inl e \<Rightarrow> Inl e
      | Inr None \<Rightarrow> parse_loop data matches
      | Inr (Some (category, opt_level)) \<Rightarrow>
          (case store data opt_level category time of
             Inl e \<Rightarrow> Inl e
           | Inr data' \<Rightarrow> parse_loop data' matches))"

definition parse_section :: "string \<Rightarrow> error + table" where
  "parse_section section = parse_loop [] (findall section)"

section \<open>Loops that may raise\<close>

text \<open>
  A \<^verbatim>\<open>for\<close> loop or a comprehension whose body may raise: the results of the body in order,
  or the first raise.
\<close>

fun collect :: "('a \<Rightarrow> error + 'b) \<Rightarrow> 'a list \<Rightarrow> error + 'b list" where
  "collect f [] = Inr []"
| "collect f (x # xs) =
     (case f x of
        Inl e \<Rightarrow> Inl e
      | Inr y \<Rightarrow> (case collect f xs of Inl e \<Rightarrow> Inl e | Inr ys \<Rightarrow> Inr (y # ys)))"

section \<open>Chart renderer: absolute runtimes\<close>

text \<open>
  The charting library is outside the script. A chart is what the script passes to it: the
  bars and annotations in drawing order, the title, the ticks and the file name. The layout
  arithmetic of the script is on floats; the model keeps the exact rationals.
\<close>

fun colors :: "category \<Rightarrow> string" where
  "colors Interpreter = ''#e13b59''"
| "colors Native = ''#f3ba14''"
| "colors Gcc = ''#59a14f''"
| "colors Clang = ''#4e79a6''"

fun labels :: "category \<Rightarrow> string" where
  "labels Interpreter = ''brainiac --interpret''"
| "labels Native = ''brainiac --compile''"
| "labels Gcc = ''gcc -O3''"
| "labels Clang = ''clang -O3''"

record 'v bar =
  x_pos :: rat
  height :: 'v
  width :: rat
  label :: string
  color :: string

record annotation =
  shown :: string
  xy :: "rat \<times> int"

record chart =
  title :: string
  filename :: string
  yticks :: "int list"
  xticklabels :: "string list"
  drawn :: "(int bar \<times> annotation option) list"

text \<open>\<^verbatim>\<open>f"{value}"\<close> on an integer.\<close>

fun show_nat :: "nat \<Rightarrow> string" where
  "show_nat n =
     (if n < 10 then [char_of (48 + n)] else show_nat (n div 10) @ [char_of (48 + n mod 10)])"

definition show_int :: "int \<Rightarrow> string" where
  "show_int i = (if i < 0 then CHR ''-'' # show_nat (nat (- i)) else show_nat (nat i))"

text \<open>\<^verbatim>\<open>sorted(data.keys())\<close>\<close>

definition sorted_keys :: "table \<Rightarrow> int list" where
  "sorted_keys data = sort (map fst data)"

text \<open>\<^verbatim>\<open>i + (j - num_bars_per_group/2 + 0.5) * bar_width\<close>\<close>

definition bar_x :: "nat \<Rightarrow> rat \<Rightarrow> nat \<Rightarrow> nat \<Rightarrow> rat" where
  "bar_x num_bars_per_group bar_width i j =
     of_nat i + (of_nat j - of_nat num_bars_per_group / 2 + 1 / 2) * bar_width"

text \<open>The body of the inner loop of \<^verbatim>\<open>create_bar_chart\<close>: one bar and, above it, its value.\<close>

definition draw_bar :: "table \<Rightarrow> nat \<Rightarrow> rat \<Rightarrow> nat \<Rightarrow> int \<Rightarrow> nat \<Rightarrow> category
    \<Rightarrow> error + (int bar \<times> annotation option)" where
  "draw_bar data num_bars_per_group bar_width i opt_level j category =
     (let x = bar_x num_bars_per_group bar_width i j in
      case map_of data opt_level of
        None \<Rightarrow> Inl KeyError
      | Some r \<Rightarrow>
          (let v = (case map_of r category of None \<Rightarrow> 0 | Some t \<Rightarrow> t) in
           Inr (\<lparr>x_pos = x, height = v, width = bar_width - 2 / 100,
                  label = (if i = 0 then labels category else []), color = colors category\<rparr>,
                if 0 < v then Some \<lparr>shown = show_int v, xy = (x, v)\<rparr> else None)))"

definition bar_categories :: "bool \<Rightarrow> category list" where
  "bar_categories include_interpreter =
     (if include_interpreter then [Interpreter, Native, Gcc, Clang] else [Native, Gcc, Clang])"

definition create_bar_chart :: "table \<Rightarrow> string \<Rightarrow> string \<Rightarrow> int list \<Rightarrow> bool \<Rightarrow> error + chart" where
  "create_bar_chart data ttl fname ticks include_interpreter =
     (let categories = bar_categories include_interpreter;
          opt_levels = sorted_keys data;
          num_bars_per_group = length categories;
          bar_width = (8 / 10) / of_nat num_bars_per_group
      in case collect (\<lambda>(i, opt_level).
                collect (\<lambda>(j, category).
                   draw_bar data num_bars_per_group bar_width i opt_level j category)
                  (enumerate 0 categories))
              (enumerate 0 opt_levels) of
           Inl e \<Rightarrow> Inl e
         | Inr groups \<Rightarrow>
             Inr \<lparr>title = ttl, filename = fname, yticks = ticks,
                  xticklabels = map (\<lambda>opt. CHR ''O'' # show_int opt) opt_levels,
                  drawn = concat groups\<rparr>)"

section \<open>Speedup calculator and its chart\<close>

text \<open>
  The entries of a speedup list are Python numbers of two types: the float of a division and
  the integer \<^verbatim>\<open>0\<close> of the \<^verbatim>\<open>else\<close> branch. \<open>PFloat q\<close> stands for the float nearest to \<open>q\<close>.
\<close>

datatype pynum = PInt int | PFloat rat

text \<open>
  \<^verbatim>\<open>a / b\<close> on integers: the quotient rounded to the nearest float. It raises on a zero
  divisor and on a quotient that rounds beyond the largest float; a quotient that rounds to
  zero is zero.
\<close>

definition py_truediv :: "int \<Rightarrow> int \<Rightarrow> error + pynum" where
  "py_truediv a b =
     (if b = 0 then Inl ZeroDivisionError
      else if (2 ^ 1024 - 2 ^ 970) * \<bar>b\<bar> \<le> \<bar>a\<bar> then Inl OverflowError
      else if \<bar>a\<bar> * 2 ^ 1075 \<le> \<bar>b\<bar> then Inr (PFloat 0)
      else Inr (PFloat (of_int a / of_int b)))"

text \<open>\<^verbatim>\<open>v == 0\<close>\<close>

fun is_zero :: "pynum \<Rightarrow> bool" where
  "is_zero (PInt n) = (n = 0)"
| "is_zero (PFloat q) = (q = 0)"

text \<open>
  \<^verbatim>\<open>[baseline / data[opt][category] if category in data[opt] else 0 for opt in opt_levels]\<close>
\<close>

definition speedup_entry :: "table \<Rightarrow> category \<Rightarrow> int \<Rightarrow> int \<Rightarrow> error + pynum" where
  "speedup_entry data category baseline opt =
     (case map_of data opt of
        None \<Rightarrow> Inl KeyError
      | Some r \<Rightarrow> (case map_of r category of None \<Rightarrow> Inr (PInt 0) | Some t \<Rightarrow> py_truediv baseline t))"

text \<open>The loop over the categories that fills the dictionary \<^verbatim>\<open>speedups\<close>.\<close>

fun speedups_loop :: "table \<Rightarrow> int list \<Rightarrow> (category \<times> pynum list) list \<Rightarrow> category list
    \<Rightarrow> error + (category \<times> pynum list) list" where
  "speedups_loop data opt_levels speedups [] = Inr speedups"
| "speedups_loop data opt_levels speedups (category # categories) =
     (case map_of data 0 of
        None \<Rightarrow> Inl KeyError
      | Some r0 \<Rightarrow>
          (case map_of r0 category of
             None \<Rightarrow> speedups_loop data opt_levels speedups categories
           | Some baseline \<Rightarrow>
               (case collect (speedup_entry data category baseline) opt_levels of
                  Inl e \<Rightarrow> Inl e
                | Inr values \<Rightarrow>
                    speedups_loop data opt_levels (AList.update category values speedups)
                      categories)))"

text \<open>\<^verbatim>\<open>opt_levels = sorted(data.keys())[1:]\<close>\<close>

definition speedup_levels :: "table \<Rightarrow> int list" where
  "speedup_levels data = tl (sorted_keys data)"

definition compute_speedups :: "table \<Rightarrow> error + (category \<times> pynum list) list" where
  "compute_speedups data =
     speedups_loop data (speedup_levels data) [] [Interpreter, Native, Gcc, Clang]"

text \<open>
  A bar of the speedup chart is drawn together with its annotation \<^verbatim>\<open>f"{value:.1f}x"\<close> at
  \<^verbatim>\<open>(x_pos, value)\<close>; a position that the loop skips has neither.
\<close>

record speedup_chart =
  sp_title :: string
  sp_filename :: string
  sp_xticklabels :: "string list"
  sp_drawn :: "pynum bar list"

definition draw_speedup :: "nat \<Rightarrow> rat \<Rightarrow> nat \<Rightarrow> nat \<Rightarrow> category \<Rightarrow> pynum list \<Rightarrow> pynum bar list" where
  "draw_speedup num_bars_per_group bar_width i j category values =
     (if length values \<le> i then []
      else if is_zero (values ! i) then []
      else [\<lparr>x_pos = bar_x num_bars_per_group bar_width i j, height = values ! i,
              width = bar_width - 2 / 100, label = (if i = 0 then labels category else []),
              color = colors category\<rparr>])"

definition create_speedup_chart :: "table \<Rightarrow> string \<Rightarrow> string \<Rightarrow> error + speedup_chart" where
  "create_speedup_chart data ttl fname =
     (let opt_levels = speedup_levels data in
      case compute_speedups data of
        Inl e \<Rightarrow> Inl e
      | Inr speedups \<Rightarrow>
          (let num_bars_per_group = length speedups in
           if num_bars_per_group = 0 then Inl ZeroDivisionError
           else
             (let bar_width = (8 / 10) / of_nat num_bars_per_group in
              Inr \<lparr>sp_title = ttl, sp_filename = fname,
                   sp_xticklabels = map (\<lambda>opt. CHR ''O'' # show_int opt) opt_levels,
                   sp_drawn =
                     concat (map (\<lambda>(i, opt_level).
                        concat (map (\<lambda>(j, (category, values)).
                           draw_speedup num_bars_per_group bar_width i j category values)
                          (enumerate 0 speedups)))
                       (enumerate 0 opt_levels))\<rparr>)))"

section \<open>The script\<close>

datatype artifact = BarChart chart | SpeedupChart speedup_chart

text \<open>\<^verbatim>\<open>np.arange(0, stop, step)\<close> on positive integers.\<close>

definition arange :: "int \<Rightarrow> int \<Rightarrow> int list" where
  "arange stop step = map (\<lambda>k. int k * step) [0 ..< nat ((stop + step - 1) div step)]"

text \<open>
  The calls of the script run in order; each chart is written before the next call starts, and
  a raise ends the run. The result is the charts written and the error that ended the run, if
  any.
\<close>

fun emit :: "(error + artifact) list \<Rightarrow> artifact list \<times> error option" where
  "emit [] = ([], None)"
| "emit (Inl e # calls) = ([], Some e)"
| "emit (Inr a # calls) = (case emit calls of (written, r) \<Rightarrow> (a # written, r))"

definition bar_call :: "table \<Rightarrow> string \<Rightarrow> string \<Rightarrow> int list \<Rightarrow> bool \<Rightarrow> error + artifact" where
  "bar_call data ttl fname ticks include_interpreter =
     (case create_bar_chart data ttl fname ticks include_interpreter of
        Inl e \<Rightarrow> Inl e | Inr c \<Rightarrow> Inr (BarChart c))"

definition speedup_call :: "table \<Rightarrow> string \<Rightarrow> string \<Rightarrow> error + artifact" where
  "speedup_call data ttl fname =
     (case create_speedup_chart data ttl fname of Inl e \<Rightarrow> Inl e | Inr c \<Rightarrow> Inr (SpeedupChart c))"

definition charts :: "table \<Rightarrow> table \<Rightarrow> (error + artifact) list" where
  "charts x86_data riscv_data =
     [bar_call x86_data ''Mandelbrot.b runtime on x86_64 (Zen2 4.4GHz)''
        ''benchmark_x86_all.png'' (arange 22000 2000) True,
      bar_call x86_data ''Mandelbrot.b runtime on x86_64 (Zen2 4.4GHz)''
        ''benchmark_x86_compiled.png'' (arange 2300 250) False,
      bar_call riscv_data ''Mandelbrot.b runtime on riscv64 (Ky X1 1.6GHz)''
        ''benchmark_riscv_all.png'' (arange 120000 10000) True,
      bar_call riscv_data ''Mandelbrot.b runtime on riscv64 (Ky X1 1.6GHz)''
        ''benchmark_riscv_compiled.png'' (arange 12000 1000) False,
      speedup_call x86_data ''Relative Speedup to Optimization Level O0 on x86_64''
        ''benchmark_x86_speedup.png'',
      speedup_call riscv_data ''Relative Speedup to Optimization Level O0 on riscv64''
        ''benchmark_riscv_speedup.png'']"

definition main :: "string \<Rightarrow> artifact list \<times> error option" where
  "main content =
     (case split_sections content of
        Inl e \<Rightarrow> ([], Some e)
      | Inr (x86, riscv) \<Rightarrow>
          (case parse_section x86 of
             Inl e \<Rightarrow> ([], Some e)
           | Inr x86_data \<Rightarrow>
               (case parse_section riscv of
                  Inl e \<Rightarrow> ([], Some e)
                | Inr riscv_data \<Rightarrow> emit (charts x86_data riscv_data))))"

section \<open>Properties\<close>

subsection \<open>Section splitter\<close>

text \<open>Neither pattern matches at a position where its marker does not start.\<close>

lemma x86_match_Nil: "\<not> prefix ''x86_64'' s \<Longrightarrow> rx_match x86_pattern s = []"
  by (simp add: x86_pattern_def)

lemma riscv_match_Nil: "\<not> prefix ''riscv64'' s \<Longrightarrow> rx_match riscv_pattern s = []"
  by (simp add: riscv_pattern_def)

lemma re_search_None:
  "(\<And>t. \<not> prefix n t \<Longrightarrow> rx_match p t = []) \<Longrightarrow> \<not> sublist n s \<Longrightarrow> re_search p s = None"
proof (induction s)
  case Nil
  then show ?case by (cases n) auto
next
  case (Cons c cs)
  then show ?case by (cases n) (auto simp: sublist_Cons_right)
qed

lemma group0_error: "group0 m = Inl e \<Longrightarrow> e = AttributeError"
  by (auto simp: group0_def split: option.splits)

lemma x86_missing: "\<not> sublist ''x86_64'' content \<Longrightarrow> x86_section content = Inl AttributeError"
  using re_search_None[of "''x86_64''" x86_pattern content] x86_match_Nil
  by (simp add: x86_section_def group0_def)

lemma riscv_missing: "\<not> sublist ''riscv64'' content \<Longrightarrow> riscv_section content = Inl AttributeError"
  using re_search_None[of "''riscv64''" riscv_pattern content] riscv_match_Nil
  by (simp add: riscv_section_def group0_def)

lemma split_missing:
  assumes "\<not> sublist ''x86_64'' content \<or> \<not> sublist ''riscv64'' content"
  shows "split_sections content = Inl AttributeError"
proof (cases "x86_section content")
  case (Inl e)
  then have "e = AttributeError"
    by (simp add: x86_section_def group0_error)
  with Inl show ?thesis by (simp add: split_sections_def)
next
  case (Inr x)
  then have "sublist ''x86_64'' content"
    using x86_missing by fastforce
  then have "riscv_section content = Inl AttributeError"
    using assms riscv_missing by blast
  with Inr show ?thesis by (simp add: split_sections_def)
qed

text \<open>
  C7. When one of the two markers does not occur in the report text, the splitter raises
  (\<^verbatim>\<open>re.search\<close> returns \<^verbatim>\<open>None\<close>, which has no \<^verbatim>\<open>group\<close>), and the run ends there with no
  chart written: no section is cut short or handed on.
\<close>

theorem missing_marker_aborts:
  assumes "\<not> sublist ''x86_64'' content \<or> \<not> sublist ''riscv64'' content"
  shows "split_sections content = Inl AttributeError \<and> main content = ([], Some AttributeError)"
  using split_missing[OF assms] by (simp add: main_def)

theorem missing_marker_aborts_witness:
  "\<not> sublist ''riscv64'' ''x86_64 compile -O0 7ms''
   \<and> split_sections ''x86_64 compile -O0 7ms'' = Inl AttributeError
   \<and> main ''x86_64 compile -O0 7ms'' = ([], Some AttributeError)"
proof -
  have h: "\<not> sublist ''riscv64'' ''x86_64 compile -O0 7ms''"
    by code_simp
  show ?thesis using h missing_marker_aborts[of "''x86_64 compile -O0 7ms''"] by simp
qed












subsection \<open>Concrete lines\<close>

text \<open>
  C5. On the line \<^verbatim>\<open>compile -O2 1234ms\<close> the line parser finds the one pair
  \<^verbatim>\<open>("compile -O2", "1234")\<close>, whose second component converts to 1234; the classifier maps
  the method to category native at level 2, and the table of the line has that one cell.
\<close>

theorem line_compile_O2:
  "findall ''compile -O2 1234ms'' = [(''compile -O2'', ''1234'')]
   \<and> py_int ''1234'' = Inr 1234
   \<and> classify ''compile -O2'' = Inr (Some (Native, 2))
   \<and> parse_section ''compile -O2 1234ms'' = Inr [(2, [(Native, 1234)])]"
  by (intro conjI; code_simp)


end
